theory Spec2Isabelle
  imports Complex_Main "HOL-Library.Sublist" "HOL-Library.Word"
begin

section \<open>Python helpers used by the service\<close>

text \<open>
  A Python \<open>str\<close> is modelled as a \<open>string\<close>: one \<open>char\<close> per code point, so the
  model covers the code points below 256 and \<open>length\<close> is Python's \<open>len\<close>.
  Python's \<open>int\<close> is \<open>int\<close>.
\<close>

text \<open>\<open>xs[start:]\<close> for any integer \<open>start\<close>: a negative start counts from the end and
  is clamped at the front, a start past the end gives the empty list.\<close>

definition slice_from :: "int \<Rightarrow> 'a list \<Rightarrow> 'a list" where
  "slice_from start xs =
     (let len = int (length xs);
          st = (if start < 0 then max (start + len) 0 else min start len)
      in drop (nat st) xs)"

text \<open>\<open>str.isspace\<close> on one code point below 256.\<close>

definition isspace :: "char \<Rightarrow> bool" where
  "isspace c = ((of_char c :: nat) \<in> {9, 10, 11, 12, 13, 28, 29, 30, 31, 32, 133, 160})"

text \<open>\<open>str.rstrip()\<close> without arguments removes trailing whitespace.\<close>

definition rstrip :: "string \<Rightarrow> string" where
  "rstrip s = rev (dropWhile isspace (rev s))"

text \<open>\<open>text.rfind(c)\<close> for a one-character needle: the highest index holding \<open>c\<close>, or
  \<open>-1\<close>. The scan runs left to right and remembers the last hit.\<close>

fun rfind_scan :: "char \<Rightarrow> string \<Rightarrow> nat \<Rightarrow> int \<Rightarrow> int" where
  "rfind_scan c [] i found = found"
| "rfind_scan c (x # xs) i found = rfind_scan c xs (Suc i) (if x = c then int i else found)"

definition rfind :: "string \<Rightarrow> char \<Rightarrow> int" where
  "rfind s c = rfind_scan c s 0 (- 1)"

section \<open>LocalAgreement (local\_agreement.py)\<close>

record agreement_result =
  result_text :: string
  result_is_final :: bool
  result_committed_prefix :: string

record local_agreement =
  la_k :: int
  la_n :: int
  la_min_new_chars :: int
  history :: "string list"
  committed_prefix :: string

text \<open>The constructor: empty history, empty committed prefix.\<close>

definition LocalAgreement :: "int \<Rightarrow> int \<Rightarrow> int \<Rightarrow> local_agreement" where
  "LocalAgreement k n min_new_chars =
     \<lparr>la_k = k, la_n = n, la_min_new_chars = min_new_chars, history = [], committed_prefix = []\<rparr>"

text \<open>The \<open>for i in range(min_len)\<close> loop of \<open>_longest_common_prefix\<close>; the result is
  \<open>prefix_len\<close> at the \<open>break\<close> or at the end of the range.\<close>

function lcp_loop :: "string list \<Rightarrow> nat \<Rightarrow> nat \<Rightarrow> nat \<Rightarrow> nat" where
  "lcp_loop strings min_len i prefix_len =
     (if i < min_len then
        (if list_all (\<lambda>s. s ! i = (strings ! 0) ! i) strings
         then lcp_loop strings min_len (i + 1) (i + 1)
         else prefix_len)
      else prefix_len)"
  by pat_completeness auto
termination
  by (relation "measure (\<lambda>(strings, min_len, i, prefix_len). min_len - i)") auto

declare lcp_loop.simps [simp del]

definition longest_common_prefix_strings :: "string list \<Rightarrow> string" where
  "longest_common_prefix_strings strings =
     (if strings = [] then []
      else if length strings = 1 then strings ! 0
      else
        let min_len = min_list (map length strings);
            prefix_len = lcp_loop strings min_len 0 0
        in take prefix_len (strings ! 0))"

definition trim_to_word_boundary :: "string \<Rightarrow> string" where
  "trim_to_word_boundary txt =
     (if txt = [] then txt
      else
        let last_space = rfind txt (CHR '' '')
        in if last_space = - 1 then txt
           else rstrip (take (nat (last_space + 1)) txt))"

text \<open>\<open>process\<close> returns the result and the updated object. \<open>history.pop(0)\<close> runs on a
  list that holds at least the entry just appended.\<close>

definition process :: "local_agreement \<Rightarrow> string \<Rightarrow> agreement_result \<times> local_agreement" where
  "process s txt =
     (let h1 = history s @ [txt];
          h2 = (if int (length h1) > la_k s then tl h1 else h1);
          s1 = s\<lparr>history := h2\<rparr>
      in if int (length h2) < la_n s then
           (\<lparr>result_text = txt, result_is_final = False,
             result_committed_prefix = committed_prefix s1\<rparr>, s1)
         else
           let lcp = longest_common_prefix_strings (slice_from (- la_n s) h2);
               lcp_trimmed = trim_to_word_boundary lcp
           in if int (length lcp_trimmed) > int (length (committed_prefix s1)) + la_min_new_chars s
              then (\<lparr>result_text = lcp_trimmed, result_is_final = True,
                     result_committed_prefix = lcp_trimmed\<rparr>,
                    s1\<lparr>committed_prefix := lcp_trimmed\<rparr>)
              else (\<lparr>result_text = txt, result_is_final = False,
                     result_committed_prefix = committed_prefix s1\<rparr>, s1))"

definition force_commit :: "local_agreement \<Rightarrow> agreement_result option \<times> local_agreement" where
  "force_commit s =
     (if history s = [] then (None, s)
      else
        let txt = last (history s)
        in if length txt \<le> length (committed_prefix s) then (None, s)
           else (Some \<lparr>result_text = txt, result_is_final = True, result_committed_prefix = txt\<rparr>,
                 s\<lparr>committed_prefix := txt, history := []\<rparr>))"

definition reset :: "local_agreement \<Rightarrow> local_agreement" where
  "reset s = s\<lparr>history := [], committed_prefix := []\<rparr>"

text \<open>A sequence of calls on one object.\<close>

datatype la_op = Process string | ForceCommit | Reset

fun apply_op :: "local_agreement \<Rightarrow> la_op \<Rightarrow> local_agreement" where
  "apply_op s (Process txt) = snd (process s txt)"
| "apply_op s ForceCommit = snd (force_commit s)"
| "apply_op s Reset = reset s"

definition run_ops :: "local_agreement \<Rightarrow> la_op list \<Rightarrow> local_agreement" where
  "run_ops s ops = foldl apply_op s ops"

section \<open>SileroVAD (vad.py)\<close>

datatype py_exception =
  RuntimeError | ValueError | AttributeError | TypeError | ZeroDivisionError
  | ExternalError string

record vad_event =
  event_type :: string
  timestamp_ms :: int
  confidence :: real

text \<open>
  The tracker object. \<open>model\<close> is the loaded Silero scorer with its recurrent state, of an
  abstract type \<open>'m\<close>, and \<open>None\<close> until \<open>load_model\<close>. The two callback slots are left out:
  nothing in the repository registers a callback, and a callback cannot change the fields
  below. The probability is a \<open>real\<close>; the scorer's float compares as its value does.
\<close>

record 'm silero_vad =
  threshold :: real
  min_speech_ms :: int
  min_silence_ms :: int
  sample_rate :: int
  model :: "'m option"
  is_speaking :: bool
  speech_start_ms :: "int option"
  silence_start_ms :: "int option"
  current_ms :: int

definition SileroVAD :: "real \<Rightarrow> int \<Rightarrow> int \<Rightarrow> int \<Rightarrow> 'm silero_vad" where
  "SileroVAD th min_speech min_silence rate =
     \<lparr>threshold = th, min_speech_ms = min_speech, min_silence_ms = min_silence,
      sample_rate = rate, model = None, is_speaking = False, speech_start_ms = None,
      silence_start_ms = None, current_ms = 0\<rparr>"

subsection \<open>External collaborators\<close>

text \<open>What lies outside the repository, taken as parameters: the JSON and base64 decoders,
  the Silero scorer (a call returns a probability or raises, and moves the recurrent state),
  the float computation \<open>int(len(audio) / sample_rate * 1000)\<close>, the Whisper engine, and
  the three integers read from the environment when a session starts.\<close>

datatype json =
  JNull | JBool bool | JNum real | JStr string | JArr "json list" | JObj "(string \<times> json) list"

record word_info =
  word :: string
  word_start :: real
  word_end :: real
  word_confidence :: real

record transcription_result =
  transcribed_text :: string
  language :: string
  language_confidence :: real
  words :: "word_info list"

record 'm externals =
  json_loads :: "string \<Rightarrow> json option"
  b64decode :: "json \<Rightarrow> 8 word list option"
  score :: "'m \<Rightarrow> real list \<Rightarrow> int \<Rightarrow> (py_exception + real) \<times> 'm"
  reset_states :: "'m \<Rightarrow> 'm"
  ms_of_samples :: "nat \<Rightarrow> int \<Rightarrow> int"
  transcribe :: "real list \<Rightarrow> string option \<Rightarrow> json option
                  \<Rightarrow> py_exception + transcription_result"
  env_agreement_k :: int
  env_agreement_n :: int
  env_agreement_min_chars :: int

subsection \<open>The tracker\<close>

definition load_model :: "'m \<Rightarrow> 'm silero_vad \<Rightarrow> 'm silero_vad" where
  "load_model loaded v = (if model v \<noteq> None then v else v\<lparr>model := Some loaded\<rparr>)"

text \<open>Lines 103 to 152 of \<open>process_chunk\<close>: the hysteresis on one chunk, given the scorer's
  probability and the chunk's duration.\<close>

definition track_chunk ::
  "'m silero_vad \<Rightarrow> real \<Rightarrow> int \<Rightarrow> vad_event list \<times> 'm silero_vad" where
  "track_chunk v speech_prob chunk_ms =
     (let (events, v') =
        (if speech_prob \<ge> threshold v then
           let v1 = v\<lparr>silence_start_ms := None\<rparr>;
               (started, v2) =
                 (if \<not> is_speaking v1 then
                    let start = (case speech_start_ms v1 of None \<Rightarrow> current_ms v1
                                 | Some t \<Rightarrow> t);
                        v1a = v1\<lparr>speech_start_ms := Some start\<rparr>;
                        speech_duration = current_ms v1a - start + chunk_ms
                    in if speech_duration \<ge> min_speech_ms v1a
                       then ([\<lparr>event_type = ''speech_start'', timestamp_ms = start,
                                confidence = speech_prob\<rparr>],
                             v1a\<lparr>is_speaking := True\<rparr>)
                       else ([], v1a)
                  else ([], v1))
           in (started @ [\<lparr>event_type = ''speech'', timestamp_ms = current_ms v2,
                            confidence = speech_prob\<rparr>], v2)
         else
           let v1 = v\<lparr>speech_start_ms := None\<rparr>
           in if is_speaking v1 then
                let start = (case silence_start_ms v1 of None \<Rightarrow> current_ms v1
                             | Some t \<Rightarrow> t);
                    v1a = v1\<lparr>silence_start_ms := Some start\<rparr>;
                    silence_duration = current_ms v1a - start + chunk_ms
                in if silence_duration \<ge> min_silence_ms v1a
                   then ([\<lparr>event_type = ''speech_end'', timestamp_ms = current_ms v1a,
                            confidence = 1 - speech_prob\<rparr>],
                         v1a\<lparr>is_speaking := False, silence_start_ms := None\<rparr>)
                   else ([], v1a)
              else ([], v1))
      in (events, v'\<lparr>current_ms := current_ms v' + chunk_ms\<rparr>))"

definition process_chunk ::
  "'m externals \<Rightarrow> 'm silero_vad \<Rightarrow> real list
     \<Rightarrow> (py_exception + vad_event list) \<times> 'm silero_vad" where
  "process_chunk ext v audio =
     (case model v of
        None \<Rightarrow> (Inl RuntimeError, v)
      | Some m \<Rightarrow>
          if sample_rate v = 0 then (Inl ZeroDivisionError, v)
          else
            let chunk_ms = ms_of_samples ext (length audio) (sample_rate v)
            in (case score ext m audio (sample_rate v) of
                  (Inl e, m') \<Rightarrow> (Inl e, v\<lparr>model := Some m'\<rparr>)
                | (Inr speech_prob, m') \<Rightarrow>
                    (let (events, v') = track_chunk (v\<lparr>model := Some m'\<rparr>) speech_prob chunk_ms
                     in (Inr events, v'))))"

text \<open>The loop of \<open>process_audio\<close> over \<open>range(0, len(audio), chunk_samples)\<close>, which
  \<open>process_audio\<close> enters with a positive step only: the last chunk is padded with zeros,
  and a raise of \<open>process_chunk\<close> leaves the loop.\<close>

function process_audio_loop ::
  "'m externals \<Rightarrow> nat \<Rightarrow> 'm silero_vad \<Rightarrow> real list
     \<Rightarrow> (py_exception + vad_event list) \<times> 'm silero_vad" where
  "process_audio_loop ext chunk_samples v audio =
     (if audio = [] \<or> chunk_samples = 0 then (Inr [], v)
      else
        let chunk = take chunk_samples audio;
            padded = chunk @ replicate (chunk_samples - length chunk) 0
        in (case process_chunk ext v padded of
              (Inl e, v') \<Rightarrow> (Inl e, v')
            | (Inr events, v') \<Rightarrow>
                (case process_audio_loop ext chunk_samples v' (drop chunk_samples audio) of
                   (Inl e, v'') \<Rightarrow> (Inl e, v'')
                 | (Inr all_events, v'') \<Rightarrow> (Inr (events @ all_events), v''))))"
  by pat_completeness auto
termination
  by (relation "measure (\<lambda>(ext, chunk_samples, v, audio). length audio)") auto

declare process_audio_loop.simps [simp del]

text \<open>\<open>process_audio\<close> with its default \<open>chunk_ms = 32\<close>. \<open>int(sample_rate * 32 / 1000)\<close>
  truncates towards zero; a zero step makes \<open>range\<close> raise, a negative one gives no chunk.\<close>

definition process_audio ::
  "'m externals \<Rightarrow> 'm silero_vad \<Rightarrow> real list
     \<Rightarrow> (py_exception + vad_event list) \<times> 'm silero_vad" where
  "process_audio ext v audio =
     (let chunk_samples =
            (if 0 \<le> sample_rate v then sample_rate v * 32 div 1000
             else - ((- sample_rate v) * 32 div 1000))
      in if chunk_samples = 0 then (Inl ValueError, v)
         else if chunk_samples < 0 then (Inr [], v)
         else process_audio_loop ext (nat chunk_samples) v audio)"

definition vad_reset :: "'m externals \<Rightarrow> 'm silero_vad \<Rightarrow> 'm silero_vad" where
  "vad_reset ext v =
     v\<lparr>is_speaking := False, speech_start_ms := None, silence_start_ms := None,
       current_ms := 0, model := map_option (reset_states ext) (model v)\<rparr>"

text \<open>A stream of chunks, each a probability with its duration, fed to the hysteresis in
  order; and the chunks at the end of a stream that all satisfy a predicate, with their total
  duration.\<close>

definition track_chunks :: "'m silero_vad \<Rightarrow> (real \<times> int) list \<Rightarrow> 'm silero_vad" where
  "track_chunks v cs = foldl (\<lambda>v c. snd (track_chunk v (fst c) (snd c))) v cs"

definition trailing_run :: "(real \<times> int \<Rightarrow> bool) \<Rightarrow> (real \<times> int) list \<Rightarrow> (real \<times> int) list" where
  "trailing_run P cs = takeWhile P (rev cs)"

definition trailing_ms :: "(real \<times> int \<Rightarrow> bool) \<Rightarrow> (real \<times> int) list \<Rightarrow> int" where
  "trailing_ms P cs = sum_list (map snd (trailing_run P cs))"

definition speechlike :: "real \<Rightarrow> real \<times> int \<Rightarrow> bool" where
  "speechlike th c = (fst c \<ge> th)"

definition silent :: "real \<Rightarrow> real \<times> int \<Rightarrow> bool" where
  "silent th c = (fst c < th)"

definition emits :: "string \<Rightarrow> vad_event list \<Rightarrow> bool" where
  "emits kind events = list_ex (\<lambda>e. event_type e = kind) events"

section \<open>Protocol (protocol.py)\<close>

text \<open>
  A command holds the JSON values of its fields as \<open>parse_command\<close> found them: the parser
  checks no types. A \<open>JObj\<close> lists the items of the decoded dict, and \<open>JNum\<close> holds the
  value of a finite number. Serialising a response with \<open>to_json\<close> is left out: the
  handlers return the response object.
\<close>

datatype command =
  StartCommand json json json json json
  | AudioCommand json json
  | StopCommand json

datatype response =
  PartialResponse json string string real
  | FinalResponse json string string "word_info list" string bool
  | ErrorResponse json string
  | ReadyResponse json

text \<open>\<open>data.get(key, default)\<close> on a decoded dict.\<close>

definition dict_get :: "(string \<times> json) list \<Rightarrow> string \<Rightarrow> json \<Rightarrow> json" where
  "dict_get items key dflt = (case map_of items key of None \<Rightarrow> dflt | Some x \<Rightarrow> x)"

text \<open>\<open>parse_command\<close>, with \<open>json.loads\<close> as the parameter \<open>loads\<close> (\<open>None\<close> stands for
  \<open>JSONDecodeError\<close>). A \<open>KeyError\<close> of \<open>data["..."]\<close> is caught and gives \<open>None\<close>; the
  \<open>AttributeError\<close> of \<open>data.get\<close> on a value that is not a dict is not caught.\<close>

definition parse_command ::
  "(string \<Rightarrow> json option) \<Rightarrow> string \<Rightarrow> py_exception + command option" where
  "parse_command loads line =
     (case loads line of
        None \<Rightarrow> Inr None
      | Some (JObj items) \<Rightarrow>
          (let cmd = map_of items ''cmd''
           in if cmd = Some (JStr ''START'') then
                (case map_of items ''session_id'' of
                   None \<Rightarrow> Inr None
                 | Some sid \<Rightarrow>
                     Inr (Some (StartCommand sid
                       (dict_get items ''source_lang'' (JStr ''en-US''))
                       (dict_get items ''auto_detect_langs'' (JArr []))
                       (dict_get items ''phrase_hints'' (JArr []))
                       (dict_get items ''initial_prompt'' (JStr [])))))
              else if cmd = Some (JStr ''AUDIO'') then
                (case map_of items ''session_id'' of
                   None \<Rightarrow> Inr None
                 | Some sid \<Rightarrow>
                     (case map_of items ''pcm_b64'' of
                        None \<Rightarrow> Inr None
                      | Some pcm_b64 \<Rightarrow> Inr (Some (AudioCommand sid pcm_b64))))
              else if cmd = Some (JStr ''STOP'') then
                (case map_of items ''session_id'' of
                   None \<Rightarrow> Inr None
                 | Some sid \<Rightarrow> Inr (Some (StopCommand sid)))
              else Inr None)
      | Some other \<Rightarrow> Inl AttributeError)"

section \<open>WhisperServer (server.py, whisper\_engine.py)\<close>

text \<open>Truth value of a decoded JSON value, for \<open>x or default\<close>.\<close>

fun truthy :: "json \<Rightarrow> bool" where
  "truthy JNull = False"
| "truthy (JBool b) = b"
| "truthy (JNum x) = (x \<noteq> 0)"
| "truthy (JStr s) = (s \<noteq> [])"
| "truthy (JArr xs) = (xs \<noteq> [])"
| "truthy (JObj items) = (items \<noteq> [])"

text \<open>Keys of the \<open>sessions\<close> dict: a list or a dict is unhashable and makes every dict
  operation raise \<open>TypeError\<close>; \<open>True\<close> and \<open>False\<close> are the same keys as 1 and 0.\<close>

fun hashable :: "json \<Rightarrow> bool" where
  "hashable (JArr xs) = False"
| "hashable (JObj items) = False"
| "hashable j = True"

fun dict_key :: "json \<Rightarrow> json" where
  "dict_key (JBool b) = JNum (if b then 1 else 0)"
| "dict_key j = j"

record session =
  session_id :: json
  source_lang :: json
  auto_detect_langs :: json
  phrase_hints :: json
  initial_prompt :: json
  agreement :: local_agreement
  audio_buffer :: "8 word list"
  is_active :: bool
  last_activity_ms :: int

text \<open>The server after \<open>start()\<close>: one tracker \<open>vad\<close> for the whole server, and the dict of
  sessions. The engine is the parameter \<open>transcribe\<close>.\<close>

record 'm whisper_server =
  vad :: "'m silero_vad"
  sessions :: "json \<Rightarrow> session option"
  chunk_samples :: int
  min_transcribe_samples :: int
  max_transcribe_samples :: int

definition WhisperServer :: "'m silero_vad \<Rightarrow> 'm whisper_server" where
  "WhisperServer v =
     \<lparr>vad = v, sessions = Map.empty, chunk_samples = 16000 div 4,
      min_transcribe_samples = 16000, max_transcribe_samples = 16000 * 30\<rparr>"

text \<open>\<open>pcm_to_float32\<close>: \<open>np.frombuffer\<close> raises on a buffer of odd size; a sample is its
  16-bit little-endian signed value over 32768, which float32 holds exactly.\<close>

fun int16_samples :: "8 word list \<Rightarrow> int list" where
  "int16_samples (lo # hi # rest) = sint (word_cat hi lo :: 16 word) # int16_samples rest"
| "int16_samples rest = []"

definition pcm_to_float32 :: "8 word list \<Rightarrow> py_exception + real list" where
  "pcm_to_float32 pcm_bytes =
     (if length pcm_bytes mod 2 \<noteq> 0 then Inl ValueError
      else Inr (map (\<lambda>i. real_of_int i / 32768) (int16_samples pcm_bytes)))"

text \<open>\<open>None if source_lang == "auto" else source_lang.split("-")[0]\<close>; a value that is not a
  string has no \<open>split\<close>.\<close>

definition language_hint :: "json \<Rightarrow> py_exception + string option" where
  "language_hint lang =
     (case lang of
        JStr s \<Rightarrow> if s = ''auto'' then Inr None
                  else Inr (Some (takeWhile (\<lambda>c. c \<noteq> CHR ''-'') s))
      | other \<Rightarrow> Inl AttributeError)"

definition prompt_hint :: "json \<Rightarrow> json option" where
  "prompt_hint prompt = (if truthy prompt then Some prompt else None)"

definition handle_start ::
  "'m externals \<Rightarrow> 'm whisper_server \<Rightarrow> json \<Rightarrow> json \<Rightarrow> json \<Rightarrow> json \<Rightarrow> json
     \<Rightarrow> (py_exception + response option) \<times> 'm whisper_server" where
  "handle_start ext srv sid lang langs hints prompt =
     (if \<not> hashable sid then (Inl TypeError, srv)
      else
        let new_agreement = LocalAgreement (env_agreement_k ext) (env_agreement_n ext)
                              (env_agreement_min_chars ext);
            new_session =
              \<lparr>session_id = sid, source_lang = lang, auto_detect_langs = langs,
               phrase_hints = hints,
               initial_prompt = (if truthy prompt then prompt else JStr []),
               agreement = new_agreement, audio_buffer = [], is_active = True,
               last_activity_ms = 0\<rparr>
        in (Inr (Some (ReadyResponse sid)),
            srv\<lparr>sessions := (sessions srv)(dict_key sid \<mapsto> new_session)\<rparr>))"

text \<open>Lines 264 to 287 of \<open>_handle_audio\<close>: the hypothesis goes through \<open>process\<close>.\<close>

definition audio_process ::
  "'m whisper_server \<Rightarrow> json \<Rightarrow> session \<Rightarrow> transcription_result
     \<Rightarrow> (py_exception + response option) \<times> 'm whisper_server" where
  "audio_process srv sid s result =
     (let (agreement_result, ag) = process (agreement s) (transcribed_text result);
          s1 = s\<lparr>agreement := ag\<rparr>
      in if result_is_final agreement_result then
           let keep_bytes = 16000 * 5 * 2;
               s2 = (if int (length (audio_buffer s1)) > keep_bytes
                     then s1\<lparr>audio_buffer := slice_from (- keep_bytes) (audio_buffer s1)\<rparr>
                     else s1)
           in (Inr (Some (FinalResponse sid (result_text agreement_result) (language result)
                       (words result) (result_committed_prefix agreement_result) False)),
               srv\<lparr>sessions := (sessions srv)(dict_key sid \<mapsto> s2)\<rparr>)
         else
           (Inr (Some (PartialResponse sid (result_text agreement_result) (language result)
                       (language_confidence result))),
            srv\<lparr>sessions := (sessions srv)(dict_key sid \<mapsto> s1)\<rparr>))"

text \<open>Lines 248 to 262: on silence the stabiliser is flushed first.\<close>

definition audio_commit ::
  "'m externals \<Rightarrow> 'm whisper_server \<Rightarrow> json \<Rightarrow> session \<Rightarrow> bool \<Rightarrow> transcription_result
     \<Rightarrow> (py_exception + response option) \<times> 'm whisper_server" where
  "audio_commit ext srv sid s is_silence result =
     (if is_silence then
        (case force_commit (agreement s) of
           (Some commit_result, ag) \<Rightarrow>
             if result_text commit_result \<noteq> [] then
               (Inr (Some (FinalResponse sid (result_text commit_result) (language result)
                            (words result) (result_committed_prefix commit_result) True)),
                srv\<lparr>sessions := (sessions srv)
                        (dict_key sid \<mapsto> s\<lparr>agreement := ag, audio_buffer := []\<rparr>),
                     vad := vad_reset ext (vad srv)\<rparr>)
             else audio_process srv sid (s\<lparr>agreement := ag\<rparr>) result
         | (None, ag) \<Rightarrow> audio_process srv sid (s\<lparr>agreement := ag\<rparr>) result)
      else audio_process srv sid s result)"

text \<open>Lines 226 to 230: at most the last \<open>max_transcribe_samples\<close> samples of the buffer.\<close>

definition transcribe_window :: "int \<Rightarrow> 8 word list \<Rightarrow> 8 word list" where
  "transcribe_window max_samples buffer =
     (let max_bytes = max_samples * 2
      in if int (length buffer) > max_bytes then slice_from (- max_bytes) buffer else buffer)"

text \<open>Lines 232 to 246: the conversion, the tracker on its last \<open>chunk_samples\<close> samples, and
  the engine. Each of the four calls may raise; nothing here catches.\<close>

definition audio_transcribe ::
  "'m externals \<Rightarrow> 'm whisper_server \<Rightarrow> json \<Rightarrow> session
     \<Rightarrow> (py_exception + response option) \<times> 'm whisper_server" where
  "audio_transcribe ext srv sid s =
     (let transcribe_buffer = transcribe_window (max_transcribe_samples srv) (audio_buffer s)
      in (case pcm_to_float32 transcribe_buffer of
            Inl e \<Rightarrow> (Inl e, srv)
          | Inr audio \<Rightarrow>
              (case process_audio ext (vad srv) (slice_from (- chunk_samples srv) audio) of
                 (Inl e, v) \<Rightarrow> (Inl e, srv\<lparr>vad := v\<rparr>)
               | (Inr vad_events, v) \<Rightarrow>
                   (let is_silence = (\<not> is_speaking v \<and> emits ''speech_end'' vad_events)
                    in (case language_hint (source_lang s) of
                          Inl e \<Rightarrow> (Inl e, srv\<lparr>vad := v\<rparr>)
                        | Inr lang \<Rightarrow>
                            (case transcribe ext audio lang (prompt_hint (initial_prompt s)) of
                               Inl e \<Rightarrow> (Inl e, srv\<lparr>vad := v\<rparr>)
                             | Inr result \<Rightarrow>
                                 audio_commit ext (srv\<lparr>vad := v\<rparr>) sid s is_silence result))))))"

text \<open>\<open>_handle_audio\<close>. The text of the decoder's exception is not part of the message.\<close>

definition handle_audio ::
  "'m externals \<Rightarrow> 'm whisper_server \<Rightarrow> json \<Rightarrow> json
     \<Rightarrow> (py_exception + response option) \<times> 'm whisper_server" where
  "handle_audio ext srv sid pcm_b64 =
     (if \<not> hashable sid then (Inl TypeError, srv)
      else
        (case sessions srv (dict_key sid) of
           None \<Rightarrow> (Inr (Some (ErrorResponse sid ''Session not found'')), srv)
         | Some s \<Rightarrow>
             if \<not> is_active s then (Inr None, srv)
             else
               (case b64decode ext pcm_b64 of
                  None \<Rightarrow> (Inr (Some (ErrorResponse sid ''Invalid base64 audio'')), srv)
                | Some pcm_bytes \<Rightarrow>
                    (let s1 = s\<lparr>audio_buffer := audio_buffer s @ pcm_bytes\<rparr>;
                         srv1 = srv\<lparr>sessions := (sessions srv)(dict_key sid \<mapsto> s1)\<rparr>;
                         buffer_samples = int (length (audio_buffer s1)) div 2
                     in if buffer_samples < min_transcribe_samples srv1 then (Inr None, srv1)
                        else audio_transcribe ext srv1 sid s1))))"

text \<open>Lines 298 to 317 of \<open>_handle_stop\<close>: the flush, returning the response and the session
  as \<open>force_commit\<close> left it.\<close>

definition stop_flush ::
  "'m externals \<Rightarrow> json \<Rightarrow> session \<Rightarrow> (py_exception + response option) \<times> session" where
  "stop_flush ext sid s =
     (if audio_buffer s \<noteq> [] then
        (case force_commit (agreement s) of
           (Some commit_result, ag) \<Rightarrow>
             if result_text commit_result \<noteq> [] then
               (case pcm_to_float32 (audio_buffer s) of
                  Inl e \<Rightarrow> (Inl e, s\<lparr>agreement := ag\<rparr>)
                | Inr audio \<Rightarrow>
                    (case language_hint (source_lang s) of
                       Inl e \<Rightarrow> (Inl e, s\<lparr>agreement := ag\<rparr>)
                     | Inr lang \<Rightarrow>
                         (case transcribe ext audio lang (prompt_hint (initial_prompt s)) of
                            Inl e \<Rightarrow> (Inl e, s\<lparr>agreement := ag\<rparr>)
                          | Inr result \<Rightarrow>
                              (Inr (Some (FinalResponse sid (result_text commit_result)
                                      (language result) (words result)
                                      (result_committed_prefix commit_result) True)),
                               s\<lparr>agreement := ag\<rparr>))))
             else (Inr None, s\<lparr>agreement := ag\<rparr>)
         | (None, ag) \<Rightarrow> (Inr None, s\<lparr>agreement := ag\<rparr>))
      else (Inr None, s))"

definition handle_stop ::
  "'m externals \<Rightarrow> 'm whisper_server \<Rightarrow> json
     \<Rightarrow> (py_exception + response option) \<times> 'm whisper_server" where
  "handle_stop ext srv sid =
     (if \<not> hashable sid then (Inl TypeError, srv)
      else
        (case sessions srv (dict_key sid) of
           None \<Rightarrow> (Inr None, srv)
         | Some s \<Rightarrow>
             (case stop_flush ext sid s of
                (Inl e, s1) \<Rightarrow> (Inl e, srv\<lparr>sessions := (sessions srv)(dict_key sid \<mapsto> s1)\<rparr>)
              | (Inr resp, s1) \<Rightarrow>
                  (Inr resp,
                   srv\<lparr>sessions := (sessions srv)(dict_key sid := None),
                       vad := vad_reset ext (vad srv)\<rparr>))))"

text \<open>\<open>_process_command\<close>. Its closing \<open>return None\<close> is never reached: a parsed command is
  one of the three kinds.\<close>

definition process_command ::
  "'m externals \<Rightarrow> 'm whisper_server \<Rightarrow> string
     \<Rightarrow> (py_exception + response option) \<times> 'm whisper_server" where
  "process_command ext srv line =
     (case parse_command (json_loads ext) line of
        Inl e \<Rightarrow> (Inl e, srv)
      | Inr None \<Rightarrow>
          (Inr (Some (ErrorResponse (JStr ''unknown'') ''Invalid command format'')), srv)
      | Inr (Some (StartCommand sid lang langs hints prompt)) \<Rightarrow>
          handle_start ext srv sid lang langs hints prompt
      | Inr (Some (AudioCommand sid pcm_b64)) \<Rightarrow> handle_audio ext srv sid pcm_b64
      | Inr (Some (StopCommand sid)) \<Rightarrow> handle_stop ext srv sid)"

text \<open>The loop of \<open>_handle_client\<close> over the decoded lines of one connection: the responses
  written, in order, and the server left behind. An exception from a handler is logged and
  ends the loop; the connection is closed without a response.\<close>

definition strip :: "string \<Rightarrow> string" where
  "strip s = dropWhile isspace (rstrip s)"

fun handle_client ::
  "'m externals \<Rightarrow> 'm whisper_server \<Rightarrow> string list \<Rightarrow> response list \<times> 'm whisper_server" where
  "handle_client ext srv [] = ([], srv)"
| "handle_client ext srv (line # rest) =
     (if strip line = [] then handle_client ext srv rest
      else
        (case process_command ext srv (strip line) of
           (Inl e, srv1) \<Rightarrow> ([], srv1)
         | (Inr None, srv1) \<Rightarrow> handle_client ext srv1 rest
         | (Inr (Some resp), srv1) \<Rightarrow>
             (case handle_client ext srv1 rest of
                (written, srv2) \<Rightarrow> (resp # written, srv2))))"

section \<open>A concrete server\<close>

text \<open>
  Externals for the examples. The scorer calls every chunk speech with probability 0.9 and
  counts its calls in its recurrent state; the engine hears \<open>"Hello world"\<close>; the base64
  payload named \<open>one-second\<close> decodes to one second of audio, 32000 zero bytes; the
  chunk duration is \<open>len * 1000 div rate\<close>, which is what the float computation gives for the
  512-sample chunks at 16 kHz. The lines of a connection are named by a tag in place of
  their JSON text: \<open>ping-A\<close> stands for \<open>{"cmd": "PING", "session_id": "A"}\<close> and \<open>audio-A\<close>
  for \<open>{"cmd": "AUDIO", "session_id": "A", "pcm_b64": "one-second"}\<close>.
\<close>

definition demo_loads :: "string \<Rightarrow> json option" where
  "demo_loads line =
     (if line = ''ping-A'' then Some (JObj [(''cmd'', JStr ''PING''), (''session_id'', JStr ''A'')])
      else if line = ''audio-A'' then
        Some (JObj [(''cmd'', JStr ''AUDIO''), (''session_id'', JStr ''A''),
                    (''pcm_b64'', JStr ''one-second'')])
      else None)"

definition demo_ext :: "nat externals" where
  "demo_ext =
     \<lparr>json_loads = demo_loads,
      b64decode = (\<lambda>j. if j = JStr ''one-second'' then Some (replicate 32000 0) else None),
      score = (\<lambda>m audio rate. (Inr (9/10), Suc m)),
      reset_states = (\<lambda>m. 0),
      ms_of_samples = (\<lambda>len rate. int len * 1000 div rate),
      transcribe = (\<lambda>audio lang prompt.
         Inr \<lparr>transcribed_text = ''Hello world'', language = ''en'',
              language_confidence = 1, words = []\<rparr>),
      env_agreement_k = 3, env_agreement_n = 2, env_agreement_min_chars = 10\<rparr>"

text \<open>The same with an engine that raises, and with a scorer that raises.\<close>

definition engine_down_ext :: "nat externals" where
  "engine_down_ext =
     demo_ext\<lparr>transcribe := (\<lambda>audio lang prompt. Inl (ExternalError ''engine down''))\<rparr>"

definition scorer_down_ext :: "nat externals" where
  "scorer_down_ext =
     demo_ext\<lparr>score := (\<lambda>m audio rate. (Inl (ExternalError ''scorer down''), m))\<rparr>"

text \<open>A started server with the default tracker settings, after a Start for session
  \<open>"A"\<close> and a Start for session \<open>"B"\<close>.\<close>

definition demo_server :: "nat whisper_server" where
  "demo_server =
     snd (handle_start demo_ext
       (snd (handle_start demo_ext (WhisperServer (load_model 0 (SileroVAD (1/2) 250 300 16000)))
          (JStr ''A'') (JStr ''en-US'') (JArr []) (JArr []) (JStr [])))
       (JStr ''B'') (JStr ''en-US'') (JArr []) (JArr []) (JStr []))"



text \<open>What the candidate timestamps of the tracker stand for after the stream \<open>cs\<close>.\<close>

definition vad_inv :: "real \<Rightarrow> (real \<times> int) list \<Rightarrow> 'm silero_vad \<Rightarrow> bool" where
  "vad_inv th cs v =
     (if is_speaking v then
        (case silence_start_ms v of
           None \<Rightarrow> trailing_run (silent th) cs = []
         | Some t \<Rightarrow> trailing_run (silent th) cs \<noteq> []
                     \<and> current_ms v - t = trailing_ms (silent th) cs)
      else
        silence_start_ms v = None \<and>
        (case speech_start_ms v of
           None \<Rightarrow> trailing_run (speechlike th) cs = []
         | Some t \<Rightarrow> current_ms v - t = trailing_ms (speechlike th) cs))"



section \<open>Properties of the helpers\<close>




lemma rstrip_prefix: "prefix (rstrip s) s"
proof -
  have "rstrip s @ rev (takeWhile isspace (rev s)) = s"
    unfolding rstrip_def rev_append [symmetric] takeWhile_dropWhile_id by simp
  then show ?thesis by (metis prefixI)
qed


lemma trim_prefix: "prefix (trim_to_word_boundary t) t"
proof -
  have "prefix (rstrip (take m t)) t" for m
    using rstrip_prefix [of "take m t"] take_is_prefix [of m t] by (rule prefix_order.trans)
  then show ?thesis by (simp add: trim_to_word_boundary_def Let_def)
qed

lemma lcp_loop_agree:
  "prefix_len = i \<Longrightarrow> \<forall>s\<in>set strings. min_len \<le> length s \<Longrightarrow>
   \<forall>s\<in>set strings. take i s = take i (strings ! 0) \<Longrightarrow>
   \<forall>s\<in>set strings. take (lcp_loop strings min_len i prefix_len) s
      = take (lcp_loop strings min_len i prefix_len) (strings ! 0)"
proof (induction strings min_len i prefix_len rule: lcp_loop.induct)
  case (1 strings min_len i prefix_len)
  show ?case
  proof (cases "i < min_len \<and> list_all (\<lambda>s. s ! i = (strings ! 0) ! i) strings")
    case True
    have step: "\<forall>s\<in>set strings. take (i + 1) s = take (i + 1) (strings ! 0)"
    proof
      fix s assume s: "s \<in> set strings"
      have "strings \<noteq> []" using s by auto
      then have "strings ! 0 \<in> set strings" by (simp)
      then have l0: "i < length (strings ! 0)" using "1.prems"(2) True by fastforce
      have ls: "i < length s" using "1.prems"(2) True s by fastforce
      have "s ! i = (strings ! 0) ! i" using True s by (simp add: list_all_iff)
      moreover have "take i s = take i (strings ! 0)" using "1.prems"(3) s by blast
      ultimately show "take (i + 1) s = take (i + 1) (strings ! 0)"
        using l0 ls by (simp add: take_Suc_conv_app_nth)
    qed
    have "\<forall>s\<in>set strings. take (lcp_loop strings min_len (i + 1) (i + 1)) s
            = take (lcp_loop strings min_len (i + 1) (i + 1)) (strings ! 0)"
      using "1.IH" [OF _ _ _ "1.prems"(2) step] True by simp
    then show ?thesis using True by (subst (1 2) lcp_loop.simps) simp
  next
    case False
    then have "lcp_loop strings min_len i prefix_len = prefix_len"
      by (subst lcp_loop.simps) auto
    then show ?thesis using "1.prems" by simp
  qed
qed

lemma min_list_le: "x \<in> set xs \<Longrightarrow> min_list xs \<le> (x::nat)"
  by (cases "xs = []") (simp_all add: min_list_Min)

lemma lcp_strings_prefix:
  assumes "s \<in> set strings"
  shows "prefix (longest_common_prefix_strings strings) s"
proof (cases "length strings = 1")
  case True
  then obtain x where "strings = [x]" by (cases strings) auto
  then show ?thesis using assms by (simp add: longest_common_prefix_strings_def)
next
  case False
  have ne: "strings \<noteq> []" using assms by auto
  define m where "m = min_list (map length strings)"
  define r where "r = lcp_loop strings m 0 0"
  have "\<forall>s\<in>set strings. m \<le> length s"
    unfolding m_def by (auto intro: min_list_le)
  then have "\<forall>s\<in>set strings. take r s = take r (strings ! 0)"
    unfolding r_def by (intro lcp_loop_agree) auto
  then have "take r (strings ! 0) = take r s" using assms by auto
  then have "prefix (take r (strings ! 0)) s" by (metis take_is_prefix)
  then show ?thesis using False ne
    by (simp add: longest_common_prefix_strings_def Let_def m_def r_def)
qed

section \<open>Properties of LocalAgreement\<close>



lemma process_committed:
  "committed_prefix (snd (process s txt)) = committed_prefix s \<or>
   (result_is_final (fst (process s txt)) \<and>
    committed_prefix (snd (process s txt)) =
      trim_to_word_boundary (longest_common_prefix_strings (slice_from (- la_n s) (history (snd (process s txt))))) \<and>
    int (length (committed_prefix (snd (process s txt)))) > int (length (committed_prefix s)) + la_min_new_chars s)"
  by (simp add: process_def Let_def)

lemma process_final:
  "result_is_final (fst (process s txt)) \<Longrightarrow>
    committed_prefix (snd (process s txt)) =
      trim_to_word_boundary (longest_common_prefix_strings (slice_from (- la_n s) (history (snd (process s txt)))))"
  by (simp add: process_def Let_def split: if_splits)

lemma process_history:
  "history (snd (process s txt)) =
     (if int (length (history s @ [txt])) > la_k s then tl (history s @ [txt]) else history s @ [txt])"
  by (simp add: process_def Let_def)

lemma process_config:
  "la_min_new_chars (snd (process s txt)) = la_min_new_chars s"
  by (simp add: process_def Let_def)

lemma force_commit_config:
  "la_min_new_chars (snd (force_commit s)) = la_min_new_chars s"
  by (simp add: force_commit_def Let_def)

lemma force_commit_committed:
  "committed_prefix (snd (force_commit s)) = committed_prefix s \<or>
   length (committed_prefix s) < length (committed_prefix (snd (force_commit s)))"
  by (simp add: force_commit_def Let_def)

lemma apply_op_grows:
  "0 \<le> la_min_new_chars s \<Longrightarrow> c \<noteq> Reset \<Longrightarrow>
   committed_prefix (apply_op s c) = committed_prefix s \<or>
   length (committed_prefix s) < length (committed_prefix (apply_op s c))"
proof (cases c)
  case (Process t)
  assume "0 \<le> la_min_new_chars s"
  then show ?thesis using process_committed [of s t] Process by auto
next
  case ForceCommit
  then show ?thesis using force_commit_committed [of s] by simp
next
  case Reset
  assume "c \<noteq> Reset"
  with Reset show ?thesis by simp
qed

lemma apply_op_config:
  "c \<noteq> Reset \<Longrightarrow> la_min_new_chars (apply_op s c) = la_min_new_chars s"
  by (cases c) (simp_all add: process_config force_commit_config)

lemma run_ops_snoc: "run_ops s (ops @ [c]) = apply_op (run_ops s ops) c"
  by (simp add: run_ops_def)

lemma run_ops_config:
  "Reset \<notin> set ops \<Longrightarrow> la_min_new_chars (run_ops s ops) = la_min_new_chars s"
proof (induction ops rule: rev_induct)
  case Nil
  then show ?case by (simp add: run_ops_def)
next
  case (snoc c ops)
  then have "c \<noteq> Reset" and "Reset \<notin> set ops" by auto
  with snoc.IH show ?case by (simp add: run_ops_snoc apply_op_config)
qed

lemma run_ops_monotone:
  "0 \<le> la_min_new_chars s \<Longrightarrow> Reset \<notin> set ops \<Longrightarrow>
   length (committed_prefix s) \<le> length (committed_prefix (run_ops s ops))"
proof (induction ops rule: rev_induct)
  case Nil
  then show ?case by (simp add: run_ops_def)
next
  case (snoc c ops)
  then have r: "Reset \<notin> set ops" and o: "c \<noteq> Reset" by auto
  have "0 \<le> la_min_new_chars (run_ops s ops)" using snoc.prems(1) r by (simp add: run_ops_config)
  from apply_op_grows [OF this o] snoc.IH [OF snoc.prems(1) r]
  show ?case by (auto simp: run_ops_snoc)
qed











lemma slice_from_last_n: "0 < n \<Longrightarrow> slice_from (- n) xs = drop (length xs - nat n) xs"
  by (auto simp: slice_from_def Let_def max_def intro: arg_cong [where f = "\<lambda>k. drop k xs"])

lemma slice_from_last: "slice_from i xs \<noteq> [] \<Longrightarrow> last (slice_from i xs) = last xs"
  by (simp add: slice_from_def Let_def)








text \<open>
  Claim C6. With \<open>min_new_chars \<ge> 0\<close> and no \<open>reset\<close>, every \<open>process\<close> or \<open>force_commit\<close>
  call that follows any such sequence of calls leaves the committed prefix as it was or makes
  it strictly longer; so its length never decreases along the sequence.
\<close>

theorem committed_prefix_monotone:
  "0 \<le> la_min_new_chars s \<Longrightarrow> Reset \<notin> set (ops @ [c]) \<Longrightarrow>
   (committed_prefix (run_ops s (ops @ [c])) = committed_prefix (run_ops s ops) \<or>
    length (committed_prefix (run_ops s ops)) < length (committed_prefix (run_ops s (ops @ [c])))) \<and>
   length (committed_prefix s) \<le> length (committed_prefix (run_ops s (ops @ [c])))"
proof -
  assume m: "0 \<le> la_min_new_chars s" and r: "Reset \<notin> set (ops @ [c])"
  then have r1: "Reset \<notin> set ops" and o: "c \<noteq> Reset" by auto
  have "0 \<le> la_min_new_chars (run_ops s ops)" using m r1 by (simp add: run_ops_config)
  from apply_op_grows [OF this o] run_ops_monotone [OF m r]
  show ?thesis by (simp add: run_ops_snoc)
qed

theorem committed_prefix_monotone_witness:
  "0 \<le> la_min_new_chars (LocalAgreement 3 2 5) \<and>
   Reset \<notin> set ([Process ''Hello world is''] @ [Process ''Hello world is great'']) \<and>
   committed_prefix (run_ops (LocalAgreement 3 2 5) [Process ''Hello world is'']) = [] \<and>
   committed_prefix (run_ops (LocalAgreement 3 2 5)
      ([Process ''Hello world is''] @ [Process ''Hello world is great''])) = ''Hello world'' \<and>
   length (committed_prefix (run_ops (LocalAgreement 3 2 5) [Process ''Hello world is'']))
     < length (committed_prefix (run_ops (LocalAgreement 3 2 5)
         ([Process ''Hello world is''] @ [Process ''Hello world is great''])))"
proof -
  have h1: "0 \<le> la_min_new_chars (LocalAgreement 3 2 5)"
    by (simp add: LocalAgreement_def)
  have h2: "Reset \<notin> set ([Process ''Hello world is''] @ [Process ''Hello world is great''])"
    by simp
  have e1: "committed_prefix (run_ops (LocalAgreement 3 2 5) [Process ''Hello world is'']) = []"
    by code_simp
  have e2: "committed_prefix (run_ops (LocalAgreement 3 2 5)
      ([Process ''Hello world is''] @ [Process ''Hello world is great''])) = ''Hello world''"
    by code_simp
  from committed_prefix_monotone [OF h1 h2] h1 h2 e1 e2 show ?thesis by simp
qed

text \<open>
  Claim C10. When \<open>process\<close> returns a final result, the new committed prefix is a prefix
  of every entry of \<open>history[-n:]\<close> (the last \<open>n\<close> entries), and of the hypothesis passed to
  the call.
\<close>

theorem process_final_prefix:
  "result_is_final (fst (process s txt)) \<Longrightarrow>
   (\<forall>h\<in>set (slice_from (- la_n s) (history (snd (process s txt)))).
      prefix (committed_prefix (snd (process s txt))) h) \<and>
   prefix (committed_prefix (snd (process s txt))) txt"
proof -
  assume fin: "result_is_final (fst (process s txt))"
  define sl where "sl = slice_from (- la_n s) (history (snd (process s txt)))"
  have cp: "committed_prefix (snd (process s txt)) = trim_to_word_boundary (longest_common_prefix_strings sl)"
    unfolding sl_def using fin by (rule process_final)
  have each: "prefix (committed_prefix (snd (process s txt))) h" if "h \<in> set sl" for h
    unfolding cp using trim_prefix lcp_strings_prefix [OF that]
    by (rule prefix_order.trans)
  have "prefix (committed_prefix (snd (process s txt))) txt"
  proof (cases "sl = []")
    case True
    then show ?thesis unfolding cp
      by (simp add: longest_common_prefix_strings_def trim_to_word_boundary_def)
  next
    case False
    then have "last sl = last (history (snd (process s txt)))"
      unfolding sl_def by (rule slice_from_last)
    moreover have "history (snd (process s txt)) \<noteq> []"
      using False unfolding sl_def by (auto simp: slice_from_def)
    then have "last (history (snd (process s txt))) = txt"
      by (simp add: process_history last_tl split: if_splits)
    ultimately have "txt \<in> set sl" using False last_in_set by metis
    then show ?thesis by (rule each)
  qed
  with each show ?thesis unfolding sl_def by blast
qed

theorem process_final_prefix_witness:
  "result_is_final (fst (process (run_ops (LocalAgreement 3 2 5) [Process ''Hello world is''])
      ''Hello world is great'')) \<and>
   committed_prefix (snd (process (run_ops (LocalAgreement 3 2 5) [Process ''Hello world is''])
      ''Hello world is great'')) = ''Hello world'' \<and>
   prefix ''Hello world'' ''Hello world is great''"
proof -
  have h: "result_is_final (fst (process (run_ops (LocalAgreement 3 2 5)
      [Process ''Hello world is'']) ''Hello world is great''))"
    by code_simp
  have e: "committed_prefix (snd (process (run_ops (LocalAgreement 3 2 5)
      [Process ''Hello world is'']) ''Hello world is great'')) = ''Hello world''"
    by code_simp
  from process_final_prefix [OF h] h e show ?thesis by simp
qed

text \<open>
  Claim C7. \<open>force_commit\<close> returns \<open>None\<close> on an empty history, and when the last entry of
  the history is no longer than the committed prefix; otherwise the committed prefix becomes
  that entry, whole and untrimmed, the history is emptied, and the result is final with the
  new committed prefix as its text.
\<close>

theorem force_commit_spec:
  "(history s = [] \<longrightarrow> fst (force_commit s) = None) \<and>
   (history s \<noteq> [] \<and> length (last (history s)) \<le> length (committed_prefix s)
      \<longrightarrow> fst (force_commit s) = None) \<and>
   (history s \<noteq> [] \<and> length (committed_prefix s) < length (last (history s))
      \<longrightarrow> committed_prefix (snd (force_commit s)) = last (history s) \<and>
          history (snd (force_commit s)) = [] \<and>
          (\<exists>r. fst (force_commit s) = Some r \<and> result_is_final r \<and>
               result_text r = committed_prefix (snd (force_commit s))))"
  by (simp add: force_commit_def Let_def)

theorem force_commit_spec_witness:
  "history (LocalAgreement 3 2 5) = [] \<and> fst (force_commit (LocalAgreement 3 2 5)) = None \<and>
   fst (force_commit (LocalAgreement 3 2 5
      \<lparr>history := [''Hello''], committed_prefix := ''Hello''\<rparr>)) = None \<and>
   committed_prefix (snd (force_commit (LocalAgreement 3 2 5
      \<lparr>history := [''Hello'', ''Hello wor''], committed_prefix := ''Hello''\<rparr>))) = ''Hello wor'' \<and>
   history (snd (force_commit (LocalAgreement 3 2 5
      \<lparr>history := [''Hello'', ''Hello wor''], committed_prefix := ''Hello''\<rparr>))) = []"
  using force_commit_spec [of "LocalAgreement 3 2 5"]
    force_commit_spec [of "LocalAgreement 3 2 5
      \<lparr>history := [''Hello''], committed_prefix := ''Hello''\<rparr>"]
    force_commit_spec [of "LocalAgreement 3 2 5
      \<lparr>history := [''Hello'', ''Hello wor''], committed_prefix := ''Hello''\<rparr>"]
  by (simp add: LocalAgreement_def)

text \<open>
  Claim C9. A \<open>force_commit\<close> call that returns \<open>None\<close> leaves the object, and so its
  history and committed prefix, exactly as it was.
\<close>

theorem force_commit_none_unchanged:
  "fst (force_commit s) = None \<Longrightarrow> snd (force_commit s) = s"
  by (simp add: force_commit_def Let_def split: if_splits)

theorem force_commit_none_unchanged_witness:
  "fst (force_commit (LocalAgreement 3 2 5
      \<lparr>history := [''Hello''], committed_prefix := ''Hello''\<rparr>)) = None \<and>
   snd (force_commit (LocalAgreement 3 2 5
      \<lparr>history := [''Hello''], committed_prefix := ''Hello''\<rparr>)) =
     LocalAgreement 3 2 5 \<lparr>history := [''Hello''], committed_prefix := ''Hello''\<rparr>"
proof -
  have h: "fst (force_commit (LocalAgreement 3 2 5
      \<lparr>history := [''Hello''], committed_prefix := ''Hello''\<rparr>)) = None"
    by (simp add: force_commit_def LocalAgreement_def Let_def)
  from force_commit_none_unchanged [OF h] h show ?thesis by simp
qed

text \<open>
  Claim C1, evaluated on the code. With \<open>K = 3\<close>, \<open>N = 2\<close>, \<open>min_new_chars = 5\<close> the call
  \<open>process("Hello world")\<close> followed by \<open>process("Hello world, how are")\<close> returns a result
  that is not final: the common prefix \<open>"Hello world"\<close> is trimmed to \<open>"Hello"\<close>, whose
  length 5 does not exceed \<open>0 + 5\<close>. The preview text is the raw hypothesis and nothing is
  committed.
\<close>

theorem scenario_A_not_final:
  "(let (r1, s1) = process (LocalAgreement 3 2 5) ''Hello world''
    in process s1 ''Hello world, how are'') =
   (\<lparr>result_text = ''Hello world, how are'', result_is_final = False,
      result_committed_prefix = []\<rparr>,
    \<lparr>la_k = 3, la_n = 2, la_min_new_chars = 5,
      history = [''Hello world'', ''Hello world, how are''], committed_prefix = []\<rparr>)"
  by code_simp

section \<open>Properties of the speech activity tracker\<close>

lemma trailing_run_snoc:
  "trailing_run P (cs @ [c]) = (if P c then c # trailing_run P cs else [])"
  by (simp add: trailing_run_def)

lemma trailing_ms_snoc:
  "trailing_ms P (cs @ [c]) = (if P c then snd c + trailing_ms P cs else 0)"
  by (simp add: trailing_ms_def trailing_run_snoc)

lemma trailing_ms_empty: "trailing_run P cs = [] \<Longrightarrow> trailing_ms P cs = 0"
  by (simp add: trailing_ms_def)

lemma track_chunk_threshold: "threshold (snd (track_chunk v p d)) = threshold v"
  by (simp add: track_chunk_def Let_def split: option.splits prod.splits)

lemma track_chunk_min_speech: "min_speech_ms (snd (track_chunk v p d)) = min_speech_ms v"
  by (simp add: track_chunk_def Let_def split: option.splits prod.splits)

lemma track_chunk_min_silence: "min_silence_ms (snd (track_chunk v p d)) = min_silence_ms v"
  by (simp add: track_chunk_def Let_def split: option.splits prod.splits)

lemma track_chunks_snoc:
  "track_chunks v (cs @ [c]) = snd (track_chunk (track_chunks v cs) (fst c) (snd c))"
  by (simp add: track_chunks_def)

lemma track_chunks_append:
  "track_chunks v (cs @ ds) = track_chunks (track_chunks v cs) ds"
  by (simp add: track_chunks_def)

lemma track_chunks_config:
  "threshold (track_chunks v cs) = threshold v \<and>
   min_speech_ms (track_chunks v cs) = min_speech_ms v \<and>
   min_silence_ms (track_chunks v cs) = min_silence_ms v"
  by (induction cs rule: rev_induct)
     (simp_all add: track_chunks_snoc track_chunk_threshold track_chunk_min_speech
        track_chunk_min_silence, simp add: track_chunks_def)

lemma vad_inv_step:
  assumes "vad_inv (threshold v) cs v"
  shows "vad_inv (threshold v) (cs @ [(p, d)]) (snd (track_chunk v p d))"
proof (cases "p \<ge> threshold v")
  case True
  then have s: "speechlike (threshold v) (p, d)" "\<not> silent (threshold v) (p, d)"
    by (simp_all add: speechlike_def silent_def)
  show ?thesis using assms True s
    by (auto simp: vad_inv_def track_chunk_def Let_def trailing_run_snoc trailing_ms_snoc
          trailing_ms_empty split: option.splits if_splits)
next
  case False
  then have s: "\<not> speechlike (threshold v) (p, d)" "silent (threshold v) (p, d)"
    by (simp_all add: speechlike_def silent_def)
  show ?thesis using assms False s
    by (auto simp: vad_inv_def track_chunk_def Let_def trailing_run_snoc trailing_ms_snoc
          trailing_ms_empty split: option.splits if_splits)
qed

lemma vad_inv_stream:
  assumes "vad_inv (threshold v) [] v"
  shows "vad_inv (threshold v) cs (track_chunks v cs)"
proof (induction cs rule: rev_induct)
  case Nil
  then show ?case using assms by (simp add: track_chunks_def)
next
  case (snoc c cs)
  have "vad_inv (threshold (track_chunks v cs)) (cs @ [(fst c, snd c)])
          (snd (track_chunk (track_chunks v cs) (fst c) (snd c)))"
    by (rule vad_inv_step) (simp add: track_chunks_config snoc.IH)
  then show ?case by (simp add: track_chunks_snoc track_chunks_config)
qed

lemma silent_keeps_off:
  "p < threshold v \<Longrightarrow> \<not> is_speaking v \<Longrightarrow> \<not> is_speaking (snd (track_chunk v p d))"
  by (simp add: track_chunk_def Let_def)

lemma silent_stream_keeps_off:
  "\<forall>c\<in>set cs. silent (threshold v) c \<Longrightarrow> \<not> is_speaking v \<Longrightarrow> \<not> is_speaking (track_chunks v cs)"
proof (induction cs rule: rev_induct)
  case Nil
  then show ?case by (simp add: track_chunks_def)
next
  case (snoc c cs)
  then have "\<not> is_speaking (track_chunks v cs)" by simp
  moreover have "fst c < threshold (track_chunks v cs)"
    using snoc.prems(1) by (simp add: track_chunks_config silent_def)
  ultimately show ?case by (simp add: track_chunks_snoc silent_keeps_off)
qed

lemma trailing_run_drop:
  assumes "length cs - length (trailing_run P cs) \<le> k"
  shows "\<forall>c\<in>set (drop k cs). P c"
proof -
  define L where "L = length (trailing_run P cs)"
  have "trailing_run P cs = take L (rev cs)"
    unfolding L_def trailing_run_def by (rule takeWhile_eq_take)
  then have "rev (trailing_run P cs) = drop (length cs - L) cs"
    by (simp add: rev_take)
  moreover have "set (drop k cs) \<subseteq> set (drop (length cs - L) cs)"
    using assms unfolding L_def by (rule set_drop_subset_set_drop)
  ultimately have "set (drop k cs) \<subseteq> set (trailing_run P cs)"
    by (metis set_rev)
  then show ?thesis unfolding trailing_run_def by (auto dest: set_takeWhileD)
qed

lemma fresh_inv: "vad_inv th [] ((SileroVAD th a b r)\<lparr>model := mo\<rparr>)"
  by (simp add: vad_inv_def SileroVAD_def trailing_run_def)

lemma emits_start:
  "emits ''speech_start'' (fst (track_chunk v p d)) \<longleftrightarrow>
     p \<ge> threshold v \<and> \<not> is_speaking v \<and>
     current_ms v - (case speech_start_ms v of None \<Rightarrow> current_ms v | Some t \<Rightarrow> t) + d \<ge> min_speech_ms v"
  by (auto simp: track_chunk_def emits_def Let_def split: option.splits)

lemma emits_end:
  "emits ''speech_end'' (fst (track_chunk v p d)) \<longleftrightarrow>
     p < threshold v \<and> is_speaking v \<and>
     current_ms v - (case silence_start_ms v of None \<Rightarrow> current_ms v | Some t \<Rightarrow> t) + d \<ge> min_silence_ms v"
  by (auto simp: track_chunk_def emits_def Let_def split: option.splits)

lemma speaking_after_silent:
  "p < threshold v \<Longrightarrow> is_speaking v \<Longrightarrow>
   is_speaking (snd (track_chunk v p d)) = (\<not> emits ''speech_end'' (fst (track_chunk v p d)))"
  by (auto simp: track_chunk_def emits_def Let_def)

text \<open>
  Claim C8. A tracker is constructed, loaded and fed a stream \<open>cs\<close> of chunks, each a
  probability with its duration, and then the chunk \<open>(p, d)\<close>. If that chunk emits
  \<open>speech_start\<close>, it is at or above the threshold and the unbroken run of chunks at or above
  the threshold that ends with it lasts at least \<open>min_speech_ms\<close>. If it emits
  \<open>speech_end\<close>, it is below the threshold, the unbroken run of chunks below the threshold
  that ends with it lasts at least \<open>min_silence_ms\<close>, and the tracker was speaking before
  every chunk of that run. A chunk below the threshold and shorter than \<open>min_silence_ms\<close>
  that follows a chunk at or above the threshold while speaking emits no \<open>speech_end\<close> and
  leaves the tracker speaking.
\<close>

theorem hysteresis_debounce:
  "(emits ''speech_start''
      (fst (track_chunk (track_chunks (load_model loaded (SileroVAD th min_speech min_silence rate)) cs) p d))
    \<longrightarrow> th \<le> p \<and> min_speech \<le> trailing_ms (speechlike th) (cs @ [(p, d)])) \<and>
   (emits ''speech_end''
      (fst (track_chunk (track_chunks (load_model loaded (SileroVAD th min_speech min_silence rate)) cs) p d))
    \<longrightarrow> p < th \<and> min_silence \<le> trailing_ms (silent th) (cs @ [(p, d)]) \<and>
      (\<forall>k. length cs - length (trailing_run (silent th) cs) \<le> k \<and> k \<le> length cs
          \<longrightarrow> is_speaking (track_chunks
                (load_model loaded (SileroVAD th min_speech min_silence rate)) (take k cs)))) \<and>
   (is_speaking (track_chunks (load_model loaded (SileroVAD th min_speech min_silence rate)) cs) \<and>
    cs \<noteq> [] \<and> speechlike th (last cs) \<and> p < th \<and> d < min_silence
    \<longrightarrow>
      is_speaking (snd (track_chunk
        (track_chunks (load_model loaded (SileroVAD th min_speech min_silence rate)) cs) p d)) \<and>
      \<not> emits ''speech_end'' (fst (track_chunk
        (track_chunks (load_model loaded (SileroVAD th min_speech min_silence rate)) cs) p d)))"
proof -
  define v0 where "v0 = load_model loaded (SileroVAD th min_speech min_silence rate)"
  define v where "v = track_chunks v0 cs"
  have v0_eq: "v0 = (SileroVAD th min_speech min_silence rate)\<lparr>model := Some loaded\<rparr>"
    by (simp add: v0_def load_model_def SileroVAD_def)
  have cfg0: "threshold v0 = th" "min_speech_ms v0 = min_speech" "min_silence_ms v0 = min_silence"
    by (simp_all add: v0_eq SileroVAD_def)
  have cfg: "threshold v = th" "min_speech_ms v = min_speech" "min_silence_ms v = min_silence"
    using track_chunks_config [of v0 cs] cfg0 by (simp_all add: v_def)
  have "vad_inv th [] v0" unfolding v0_eq by (rule fresh_inv)
  then have "vad_inv (threshold v0) [] v0" by (simp add: cfg0)
  then have "vad_inv (threshold v0) cs v" unfolding v_def by (rule vad_inv_stream)
  then have inv: "vad_inv th cs v" by (simp add: cfg0)
  have start: "th \<le> p \<and> min_speech \<le> trailing_ms (speechlike th) (cs @ [(p, d)])"
    if "emits ''speech_start'' (fst (track_chunk v p d))"
  proof -
    from that have a: "th \<le> p" "\<not> is_speaking v"
      and b: "min_speech \<le> current_ms v
          - (case speech_start_ms v of None \<Rightarrow> current_ms v | Some t \<Rightarrow> t) + d"
      by (simp_all add: emits_start cfg)
    from inv a b show ?thesis
      by (auto simp: vad_inv_def trailing_ms_snoc speechlike_def trailing_ms_empty
            split: option.splits)
  qed
  have stop: "p < th \<and> min_silence \<le> trailing_ms (silent th) (cs @ [(p, d)]) \<and>
      (\<forall>k. length cs - length (trailing_run (silent th) cs) \<le> k \<and> k \<le> length cs
          \<longrightarrow> is_speaking (track_chunks v0 (take k cs)))"
    if "emits ''speech_end'' (fst (track_chunk v p d))"
  proof -
    from that have a: "p < th" "is_speaking v"
      and b: "min_silence \<le> current_ms v
          - (case silence_start_ms v of None \<Rightarrow> current_ms v | Some t \<Rightarrow> t) + d"
      by (simp_all add: emits_end cfg)
    from inv a b have ms: "min_silence \<le> trailing_ms (silent th) (cs @ [(p, d)])"
      by (auto simp: vad_inv_def trailing_ms_snoc silent_def trailing_ms_empty
            split: option.splits)
    have "is_speaking (track_chunks v0 (take k cs))"
      if k: "length cs - length (trailing_run (silent th) cs) \<le> k" for k
    proof (rule ccontr)
      assume off: "\<not> is_speaking (track_chunks v0 (take k cs))"
      have "\<forall>c\<in>set (drop k cs). silent th c" using k by (rule trailing_run_drop)
      then have "\<forall>c\<in>set (drop k cs). silent (threshold (track_chunks v0 (take k cs))) c"
        by (simp add: track_chunks_config cfg0)
      from silent_stream_keeps_off [OF this off]
      have "\<not> is_speaking (track_chunks (track_chunks v0 (take k cs)) (drop k cs))" .
      then have "\<not> is_speaking (track_chunks v0 cs)"
        using track_chunks_append [of v0 "take k cs" "drop k cs"] by simp
      with a(2) show False by (simp add: v_def)
    qed
    with a ms show ?thesis by blast
  qed
  have single: "is_speaking (snd (track_chunk v p d)) \<and>
      \<not> emits ''speech_end'' (fst (track_chunk v p d))"
    if sp: "is_speaking v" and ne: "cs \<noteq> []" and sl: "speechlike th (last cs)"
      and lo: "p < th" and sh: "d < min_silence"
  proof -
    from ne obtain bs c where cs: "cs = bs @ [c]" by (metis rev_exhaust)
    with sl have "\<not> silent th c" by (simp add: speechlike_def silent_def)
    then have "trailing_run (silent th) cs = []" by (simp add: cs trailing_run_snoc)
    with inv sp have "silence_start_ms v = None"
      by (auto simp: vad_inv_def split: option.splits)
    with sh have no_end: "\<not> emits ''speech_end'' (fst (track_chunk v p d))"
      by (simp add: emits_end cfg)
    moreover from sp lo have "is_speaking (snd (track_chunk v p d))
        = (\<not> emits ''speech_end'' (fst (track_chunk v p d)))"
      by (intro speaking_after_silent) (simp_all add: cfg)
    ultimately show ?thesis by simp
  qed
  from start stop single show ?thesis unfolding v_def v0_def by blast
qed

theorem hysteresis_debounce_witness:
  "emits ''speech_start'' (fst (track_chunk
      (track_chunks (load_model () (SileroVAD (1/2) 250 300 16000)) [(9/10, 128)]) (9/10) 128)) \<and>
   (250::int) \<le> trailing_ms (speechlike (1/2)) ([(9/10, 128)] @ [(9/10, 128)]) \<and>
   emits ''speech_end'' (fst (track_chunk
      (track_chunks (load_model () (SileroVAD (1/2) 250 300 16000))
         [(9/10, 128), (9/10, 128), (1/10, 128), (1/10, 128)]) (1/10) 128)) \<and>
   (300::int) \<le> trailing_ms (silent (1/2))
      ([(9/10, 128), (9/10, 128), (1/10, 128), (1/10, 128)] @ [(1/10, 128)]) \<and>
   is_speaking (track_chunks (load_model () (SileroVAD (1/2) 250 300 16000)) [(9/10, 128), (9/10, 128)]) \<and>
   is_speaking (snd (track_chunk
      (track_chunks (load_model () (SileroVAD (1/2) 250 300 16000)) [(9/10, 128), (9/10, 128)]) (1/10) 128))"
proof -
  have h1: "emits ''speech_start'' (fst (track_chunk
      (track_chunks (load_model () (SileroVAD (1/2) 250 300 16000)) [(9/10, 128)]) (9/10) 128))"
    by code_simp
  have h2: "emits ''speech_end'' (fst (track_chunk
      (track_chunks (load_model () (SileroVAD (1/2) 250 300 16000))
         [(9/10, 128), (9/10, 128), (1/10, 128), (1/10, 128)]) (1/10) 128))"
    by code_simp
  have h3: "is_speaking (track_chunks (load_model () (SileroVAD (1/2) 250 300 16000)) [(9/10, 128), (9/10, 128)])"
    by code_simp
  have h4: "speechlike (1/2) (last [(9/10, 128), (9/10, 128)])"
    by (simp add: speechlike_def)
  from hysteresis_debounce [of "()" "1/2" 250 300 16000 "[(9/10, 128)]" "9/10" 128]
    hysteresis_debounce [of "()" "1/2" 250 300 16000
      "[(9/10, 128), (9/10, 128), (1/10, 128), (1/10, 128)]" "1/10" 128]
    hysteresis_debounce [of "()" "1/2" 250 300 16000 "[(9/10, 128), (9/10, 128)]" "1/10" 128]
    h1 h2 h3 h4
  show ?thesis by simp
qed

section \<open>Properties of the server\<close>

lemma process_audio_loop_nil: "process_audio_loop ext n v [] = (Inr [], v)"
  by (subst process_audio_loop.simps) simp

lemma process_audio_loop_step:
  "audio \<noteq> [] \<Longrightarrow> n \<noteq> 0 \<Longrightarrow>
   process_audio_loop ext n v audio =
     (case process_chunk ext v (take n audio @ replicate (n - length (take n audio)) 0) of
        (Inl e, v') \<Rightarrow> (Inl e, v')
      | (Inr events, v') \<Rightarrow>
          (case process_audio_loop ext n v' (drop n audio) of
             (Inl e, v'') \<Rightarrow> (Inl e, v'')
           | (Inr all_events, v'') \<Rightarrow> (Inr (events @ all_events), v'')))"
  by (subst process_audio_loop.simps) (simp add: Let_def)

lemma speechy_chunk:
  assumes "score ext = (\<lambda>m audio rate. (Inr (9/10), Suc m))"
    and "ms_of_samples ext = (\<lambda>len rate. int len * 1000 div rate)"
    and "length chunk = 512"
  shows "process_chunk ext
           \<lparr>threshold = 1/2, min_speech_ms = 250, min_silence_ms = 300, sample_rate = 16000,
            model = Some m, is_speaking = sp, speech_start_ms = st, silence_start_ms = si,
            current_ms = t\<rparr> chunk =
         (Inr (fst (track_chunk \<lparr>threshold = 1/2, min_speech_ms = 250, min_silence_ms = 300,
                 sample_rate = 16000, model = Some (Suc m), is_speaking = sp,
                 speech_start_ms = st, silence_start_ms = si, current_ms = t\<rparr> (9/10) 32)),
          snd (track_chunk \<lparr>threshold = 1/2, min_speech_ms = 250, min_silence_ms = 300,
                 sample_rate = 16000, model = Some (Suc m), is_speaking = sp,
                 speech_start_ms = st, silence_start_ms = si, current_ms = t\<rparr> (9/10) 32))"
  using assms by (simp add: process_chunk_def Let_def split: prod.splits)

lemma speechy_second:
  assumes sc: "score ext = (\<lambda>m audio rate. (Inr (9/10), Suc m))"
    and ms: "ms_of_samples ext = (\<lambda>len rate. int len * 1000 div rate)"
  shows "\<exists>evs. process_audio ext (load_model m0 (SileroVAD (1/2) 250 300 16000)) (replicate 4000 0) =
     (Inr evs, \<lparr>threshold = 1/2, min_speech_ms = 250, min_silence_ms = 300, sample_rate = 16000,
            model = Some (Suc (Suc (Suc (Suc (Suc (Suc (Suc (Suc m0)))))))), is_speaking = True,
            speech_start_ms = Some 0, silence_start_ms = None, current_ms = 256\<rparr>)"
  by (simp add: process_audio_def load_model_def SileroVAD_def process_audio_loop_step
        process_audio_loop_nil speechy_chunk [OF sc ms] track_chunk_def Let_def)

lemma int16_samples_replicate:
  "int16_samples (replicate (2 * n) b) = replicate n (sint (word_cat b b :: 16 word))"
  by (induction n) simp_all

lemma one_second_audio: "pcm_to_float32 (replicate 32000 0) = Inr (replicate 16000 0)"
  using int16_samples_replicate [of 16000 0] by (simp add: pcm_to_float32_def)

lemma demo_server_vad: "vad demo_server = load_model 0 (SileroVAD (1/2) 250 300 16000)"
  by (simp add: demo_server_def handle_start_def WhisperServer_def Let_def)

lemma demo_server_sizes:
  "chunk_samples demo_server = 4000" "min_transcribe_samples demo_server = 16000"
  "max_transcribe_samples demo_server = 480000"
  by (simp_all add: demo_server_def handle_start_def WhisperServer_def Let_def)

lemma demo_server_A:
  "sessions demo_server (JStr ''A'') =
     Some \<lparr>session_id = JStr ''A'', source_lang = JStr ''en-US'', auto_detect_langs = JArr [],
           phrase_hints = JArr [], initial_prompt = JStr [],
           agreement = LocalAgreement 3 2 10, audio_buffer = [], is_active = True,
           last_activity_ms = 0\<rparr>"
  by (simp add: demo_server_def handle_start_def WhisperServer_def Let_def demo_ext_def)

lemma demo_server_B: "sessions demo_server (JStr ''B'') \<noteq> None"
  by (simp add: demo_server_def handle_start_def WhisperServer_def Let_def demo_ext_def)

lemma demo_score:
  "score demo_ext = (\<lambda>m audio rate. (Inr (9/10), Suc m))"
  "ms_of_samples demo_ext = (\<lambda>len rate. int len * 1000 div rate)"
  "score engine_down_ext = (\<lambda>m audio rate. (Inr (9/10), Suc m))"
  "ms_of_samples engine_down_ext = (\<lambda>len rate. int len * 1000 div rate)"
  by (simp_all add: demo_ext_def engine_down_ext_def)

lemma audio_A_reaches_transcribe:
  assumes "b64decode ext (JStr ''one-second'') = Some (replicate 32000 0)"
  shows "handle_audio ext demo_server (JStr ''A'') (JStr ''one-second'') =
     audio_transcribe ext
       (demo_server\<lparr>sessions := (sessions demo_server)(JStr ''A'' \<mapsto>
          \<lparr>session_id = JStr ''A'', source_lang = JStr ''en-US'', auto_detect_langs = JArr [],
           phrase_hints = JArr [], initial_prompt = JStr [],
           agreement = LocalAgreement 3 2 10, audio_buffer = replicate 32000 0, is_active = True,
           last_activity_ms = 0\<rparr>)\<rparr>)
       (JStr ''A'')
       \<lparr>session_id = JStr ''A'', source_lang = JStr ''en-US'', auto_detect_langs = JArr [],
           phrase_hints = JArr [], initial_prompt = JStr [],
           agreement = LocalAgreement 3 2 10, audio_buffer = replicate 32000 0, is_active = True,
           last_activity_ms = 0\<rparr>"
  using assms by (simp add: handle_audio_def demo_server_A demo_server_sizes Let_def)

lemma demo_window:
  "transcribe_window 480000 (replicate 32000 0) = replicate 32000 0"
  "slice_from (- 4000) (replicate 16000 (0::real)) = replicate 4000 0"
  by (simp_all add: transcribe_window_def slice_from_def)


lemma audio_A_engine_down:
  "fst (handle_audio engine_down_ext demo_server (JStr ''A'') (JStr ''one-second'')) =
     Inl (ExternalError ''engine down'')"
proof -
  obtain evs where pa:
    "process_audio engine_down_ext (load_model 0 (SileroVAD (1/2) 250 300 16000))
       (replicate 4000 0) =
       (Inr evs, \<lparr>threshold = 1/2, min_speech_ms = 250, min_silence_ms = 300,
          sample_rate = 16000,
          model = Some (Suc (Suc (Suc (Suc (Suc (Suc (Suc (Suc 0)))))))), is_speaking = True,
          speech_start_ms = Some 0, silence_start_ms = None, current_ms = 256\<rparr>)"
    using speechy_second [OF demo_score(3) demo_score(4), of 0] by blast
  have dec: "b64decode engine_down_ext (JStr ''one-second'') = Some (replicate 32000 0)"
    by (simp add: demo_ext_def engine_down_ext_def)
  have tr: "transcribe engine_down_ext =
      (\<lambda>audio lang prompt. Inl (ExternalError ''engine down''))"
    by (simp add: engine_down_ext_def)
  show ?thesis
    by (simp add: audio_A_reaches_transcribe [OF dec] audio_transcribe_def demo_window
          one_second_audio demo_server_vad demo_server_sizes pa language_hint_def
          prompt_hint_def tr Let_def)
qed

lemma audio_A_scorer_down:
  "fst (handle_audio scorer_down_ext demo_server (JStr ''A'') (JStr ''one-second'')) =
     Inl (ExternalError ''scorer down'')"
proof -
  have dec: "b64decode scorer_down_ext (JStr ''one-second'') = Some (replicate 32000 0)"
    by (simp add: demo_ext_def scorer_down_ext_def)
  have sc: "score scorer_down_ext = (\<lambda>m audio rate. (Inl (ExternalError ''scorer down''), m))"
    by (simp add: scorer_down_ext_def)
  show ?thesis
    by (simp add: audio_A_reaches_transcribe [OF dec] audio_transcribe_def demo_window
          one_second_audio demo_server_vad demo_server_sizes process_audio_def
          process_audio_loop_step process_chunk_def load_model_def SileroVAD_def sc Let_def)
qed








lemma strip_tags: "strip ''ping-A'' = ''ping-A''" "strip ''audio-A'' = ''audio-A''"
  by (simp_all add: strip_def rstrip_def isspace_def)


lemma audio_line_engine_down:
  "process_command engine_down_ext srv ''audio-A'' =
     handle_audio engine_down_ext srv (JStr ''A'') (JStr ''one-second'')"
  by (simp add: process_command_def parse_command_def demo_ext_def engine_down_ext_def
        demo_loads_def Let_def)

lemma client_engine_down:
  "fst (handle_client engine_down_ext demo_server [''audio-A'', ''audio-A'']) = []"
proof -
  obtain srv1 where "handle_audio engine_down_ext demo_server (JStr ''A'') (JStr ''one-second'')
      = (Inl (ExternalError ''engine down''), srv1)"
    using audio_A_engine_down by (metis prod.collapse)
  then show ?thesis by (simp add: strip_tags audio_line_engine_down)
qed


lemma audio_A_scorer_down_state:
  "handle_audio scorer_down_ext demo_server (JStr ''A'') (JStr ''one-second'') =
     (Inl (ExternalError ''scorer down''),
      demo_server\<lparr>sessions := (sessions demo_server)(JStr ''A'' \<mapsto>
          \<lparr>session_id = JStr ''A'', source_lang = JStr ''en-US'', auto_detect_langs = JArr [],
           phrase_hints = JArr [], initial_prompt = JStr [],
           agreement = LocalAgreement 3 2 10, audio_buffer = replicate 32000 0,
           is_active = True, last_activity_ms = 0\<rparr>),
         vad := load_model 0 (SileroVAD (1/2) 250 300 16000)\<rparr>)"
proof -
  have dec: "b64decode scorer_down_ext (JStr ''one-second'') = Some (replicate 32000 0)"
    by (simp add: demo_ext_def scorer_down_ext_def)
  have sc: "score scorer_down_ext = (\<lambda>m audio rate. (Inl (ExternalError ''scorer down''), m))"
    by (simp add: scorer_down_ext_def)
  show ?thesis
    by (simp add: audio_A_reaches_transcribe [OF dec] audio_transcribe_def demo_window
          one_second_audio demo_server_vad demo_server_sizes process_audio_def
          process_audio_loop_step process_chunk_def load_model_def SileroVAD_def sc Let_def)
qed








text \<open>
  Claim C3, as the code has it. An Audio command reaches a registered, active session, its
  payload decodes, and the buffer holds enough samples to transcribe. If a scorer call inside
  \<open>process_audio\<close> raises, or the tracker runs and the engine's \<open>transcribe\<close> raises, then
  \<open>_handle_audio\<close> raises that exception: it returns no response. The session stays
  registered and active, its buffer holds the old audio followed by the new chunk, its
  stabiliser is as before, and the tracker is as the scorer calls left it.
\<close>

theorem backend_failure_raises:
  assumes "hashable sid"
    and "sessions srv (dict_key sid) = Some s"
    and "is_active s"
    and "b64decode ext pcm_b64 = Some pcm_bytes"
    and "min_transcribe_samples srv \<le> int (length (audio_buffer s @ pcm_bytes)) div 2"
    and "pcm_to_float32 (transcribe_window (max_transcribe_samples srv)
           (audio_buffer s @ pcm_bytes)) = Inr audio"
    and "process_audio ext (vad srv) (slice_from (- chunk_samples srv) audio) = (Inl e, v) \<or>
         (process_audio ext (vad srv) (slice_from (- chunk_samples srv) audio) = (Inr events, v) \<and>
          language_hint (source_lang s) = Inr lang \<and>
          transcribe ext audio lang (prompt_hint (initial_prompt s)) = Inl e)"
  shows "handle_audio ext srv sid pcm_b64 =
     (Inl e, srv\<lparr>sessions := (sessions srv)
                   (dict_key sid \<mapsto> s\<lparr>audio_buffer := audio_buffer s @ pcm_bytes\<rparr>),
               vad := v\<rparr>)"
  using assms by (auto simp: handle_audio_def audio_transcribe_def Let_def)

theorem backend_failure_raises_witness:
  "handle_audio scorer_down_ext demo_server (JStr ''A'') (JStr ''one-second'') =
     (Inl (ExternalError ''scorer down''),
      demo_server\<lparr>sessions := (sessions demo_server)(JStr ''A'' \<mapsto>
          \<lparr>session_id = JStr ''A'', source_lang = JStr ''en-US'', auto_detect_langs = JArr [],
           phrase_hints = JArr [], initial_prompt = JStr [],
           agreement = LocalAgreement 3 2 10, audio_buffer = replicate 32000 0,
           is_active = True, last_activity_ms = 0\<rparr>),
         vad := load_model 0 (SileroVAD (1/2) 250 300 16000)\<rparr>) \<and>
   handle_audio engine_down_ext demo_server (JStr ''A'') (JStr ''one-second'') =
     (Inl (ExternalError ''engine down''),
      demo_server\<lparr>sessions := (sessions demo_server)(JStr ''A'' \<mapsto>
          \<lparr>session_id = JStr ''A'', source_lang = JStr ''en-US'', auto_detect_langs = JArr [],
           phrase_hints = JArr [], initial_prompt = JStr [],
           agreement = LocalAgreement 3 2 10, audio_buffer = replicate 32000 0,
           is_active = True, last_activity_ms = 0\<rparr>),
         vad := \<lparr>threshold = 1/2, min_speech_ms = 250, min_silence_ms = 300,
           sample_rate = 16000, model = Some 8, is_speaking = True, speech_start_ms = Some 0,
           silence_start_ms = None, current_ms = 256\<rparr>\<rparr>)"
proof -
  define sA where "sA =
     \<lparr>session_id = JStr ''A'', source_lang = JStr ''en-US'', auto_detect_langs = JArr [],
      phrase_hints = JArr [], initial_prompt = JStr [],
      agreement = LocalAgreement 3 2 10, audio_buffer = [], is_active = True,
      last_activity_ms = 0\<rparr>"
  have h1: "hashable (JStr ''A'')" by simp
  have h2: "sessions demo_server (dict_key (JStr ''A'')) = Some sA"
    by (simp add: demo_server_A sA_def)
  have h3: "is_active sA" by (simp add: sA_def)
  have h4: "b64decode scorer_down_ext (JStr ''one-second'') = Some (replicate 32000 0)"
    "b64decode engine_down_ext (JStr ''one-second'') = Some (replicate 32000 0)"
    by (simp_all add: demo_ext_def scorer_down_ext_def engine_down_ext_def)
  have h5: "min_transcribe_samples demo_server
      \<le> int (length (audio_buffer sA @ replicate 32000 0)) div 2"
    by (simp add: demo_server_sizes sA_def)
  have h6: "pcm_to_float32 (transcribe_window (max_transcribe_samples demo_server)
      (audio_buffer sA @ replicate 32000 0)) = Inr (replicate 16000 0)"
    by (simp add: demo_server_sizes sA_def demo_window one_second_audio)
  have sc: "score scorer_down_ext = (\<lambda>m audio rate. (Inl (ExternalError ''scorer down''), m))"
    by (simp add: scorer_down_ext_def)
  have h7: "process_audio scorer_down_ext (vad demo_server)
      (slice_from (- chunk_samples demo_server) (replicate 16000 0)) =
        (Inl (ExternalError ''scorer down''), load_model 0 (SileroVAD (1/2) 250 300 16000))"
    by (simp add: demo_server_sizes demo_server_vad demo_window process_audio_def
          process_audio_loop_step process_chunk_def load_model_def SileroVAD_def sc Let_def)
  have s8: "Suc (Suc (Suc (Suc (Suc (Suc (Suc (Suc 0))))))) = 8" by simp
  obtain evs where h8: "process_audio engine_down_ext (vad demo_server)
      (slice_from (- chunk_samples demo_server) (replicate 16000 0)) =
        (Inr evs, \<lparr>threshold = 1/2, min_speech_ms = 250, min_silence_ms = 300,
           sample_rate = 16000, model = Some 8, is_speaking = True, speech_start_ms = Some 0,
           silence_start_ms = None, current_ms = 256\<rparr>)"
    using speechy_second [OF demo_score(3) demo_score(4), of 0]
    by (auto simp: demo_server_sizes demo_server_vad demo_window s8)
  have h9: "language_hint (source_lang sA) = Inr (Some ''en'')"
    by (simp add: sA_def language_hint_def)
  have h10: "transcribe engine_down_ext (replicate 16000 0) (Some ''en'')
      (prompt_hint (initial_prompt sA)) = Inl (ExternalError ''engine down'')"
    by (simp add: engine_down_ext_def)
  from backend_failure_raises [OF h1 h2 h3 h4(1) h5 h6 disjI1 [OF h7]]
    backend_failure_raises [OF h1 h2 h3 h4(2) h5 h6 disjI2 [OF conjI [OF h8 conjI [OF h9 h10]]]]
  show ?thesis by (simp add: sA_def)
qed

text \<open>
  Claim C3 as stated fails: no Error response is produced. With session \<open>"A"\<close> registered
  and active, an Audio command carrying a second of audio makes \<open>_handle_audio\<close> raise when
  the engine raises, and when the scorer raises; and the connection loop, given that line
  twice with a failing engine, writes nothing and stops at the first.
\<close>

theorem backend_failure_no_error_response:
  "map_option is_active (sessions demo_server (JStr ''A'')) = Some True \<and>
   fst (handle_audio engine_down_ext demo_server (JStr ''A'') (JStr ''one-second'')) =
     Inl (ExternalError ''engine down'') \<and>
   fst (handle_audio scorer_down_ext demo_server (JStr ''A'') (JStr ''one-second'')) =
     Inl (ExternalError ''scorer down'') \<and>
   fst (handle_client engine_down_ext demo_server [''audio-A'', ''audio-A'']) = []"
  using audio_A_engine_down audio_A_scorer_down client_engine_down
  by (simp add: demo_server_A)

end
